theory Spec2Isabelle
  imports Main
begin

section \<open>The state-channel client of \<^verbatim>\<open>src/index.js\<close>\<close>

text \<open>
  The class \<^verbatim>\<open>SCClient\<close> is thin orchestration over collaborators that live in other
  modules: the database helper, the blockchain proxy, the message generator, the proof
  generator, the random utility, the game rule, the constants and the socket. The
  methods of the class are embedded here as functions that take the client and return
  the settled promise together with the client after the call. Every call the class
  makes on a collaborator is appended to a trace, in program order, so that the order
  of persisting, emitting and submitting can be read off.

  Record fields share one name space in a theory, so every field carries a short prefix
  naming its record (\<open>ch_\<close> channel, \<open>bet_\<close> bet, \<open>req_\<close> BetRequest message, ...); the
  rest of the name is the one in the source. Amounts, rounds, masks and status codes are
  JavaScript Numbers that hold an integer, modelled by that integer (\<open>int\<close>); addition,
  subtraction and \<^verbatim>\<open>parseInt\<close> round and truncate as they do on Numbers (see below).
  Numbers with a fraction, \<^verbatim>\<open>NaN\<close>, the infinities and console logging are not
  modelled. A method runs from its
  first line to its \<^verbatim>\<open>return\<close> with no other handler in between: the message handler
  and the chain event handler that the class starts are other modules, and the spec
  has all work on one channel serialised.
\<close>

subsection \<open>Values a promise settles with\<close>

type_synonym address = string

record channel =
  ch_channelIdentifier :: string
  ch_partner :: address
  ch_status :: int
  ch_currentRound :: "int option"
  ch_localBalance :: int
  ch_remoteBalance :: int
  ch_localCloseBalanceHash :: string
  ch_remoteCloseBalanceHash :: string

text \<open>The object literal that \<^verbatim>\<open>startBet\<close> hands to \<^verbatim>\<open>dbhelper.addBet\<close> (lines 178-192).\<close>

record bet =
  bet_gameContractAddress :: address
  bet_channelId :: string
  bet_round :: int
  bet_betMask :: int
  bet_modulo :: int
  bet_value :: int
  bet_winAmount :: int
  bet_positiveA :: address
  bet_hashRa :: string
  bet_ra :: string
  bet_signatureA :: string
  bet_negativeB :: address
  bet_status :: int

text \<open>
  A JavaScript value as far as the class returns or throws one. An error object is
  \<open>JError name\<close>, \<open>name\<close> being the error's name (\<^verbatim>\<open>TypeError\<close> for a property read on
  \<^verbatim>\<open>null\<close> or \<^verbatim>\<open>undefined\<close>, or whatever a collaborator rejected with).
\<close>

datatype jsval =
    JUndefined
  | JNull
  | JBool bool
  | JStr string
  | JEmptyObject
  | JChannel channel
  | JBet bet
  | JChannels "channel list"
  | JBets "bet list"
  | JError string

text \<open>An \<^verbatim>\<open>async\<close> method's promise either resolves with a value or rejects with one.\<close>

datatype outcome = Resolved jsval | Rejected jsval

subsection \<open>Numbers\<close>

text \<open>
  A Number is a double: it holds every integer of magnitude up to \<open>2 ^ 53\<close>, and beyond
  that only the integers \<open>q * 2 ^ e\<close> with \<open>q < 2 ^ 53\<close>. \<open>to_Number x\<close> is the Number
  nearest to the integer \<open>x\<close>, a tie going to the even \<open>q\<close>: the result of an addition
  or a subtraction whose exact value is \<open>x\<close>. \<open>round_pos\<close> does the rounding for
  \<open>x\<close> from 0 upwards, and \<open>bitlen x\<close> is the number of binary digits of \<open>x\<close>.
\<close>

function bitlen :: "int \<Rightarrow> nat" where
  "bitlen x = (if x \<le> 0 then 0 else Suc (bitlen (x div 2)))"
  by pat_completeness auto
termination
  by (relation "measure nat") auto

declare bitlen.simps [simp del]

definition round_pos :: "int \<Rightarrow> int" where
  "round_pos x =
     (if x < 2 ^ 53 then x
      else
        (let e = bitlen x - 53; q = x div 2 ^ e; r = x mod 2 ^ e; h = 2 ^ (e - 1)
         in if r < h \<or> (r = h \<and> even q) then q * 2 ^ e else (q + 1) * 2 ^ e))"

definition to_Number :: "int \<Rightarrow> int" where
  "to_Number x = (if x < 0 then - round_pos (- x) else round_pos x)"

text \<open>\<^verbatim>\<open>a + b\<close> and \<^verbatim>\<open>a - b\<close> on Numbers.\<close>

definition js_plus :: "int \<Rightarrow> int \<Rightarrow> int" where
  "js_plus a b = to_Number (a + b)"

definition js_minus :: "int \<Rightarrow> int \<Rightarrow> int" where
  "js_minus a b = to_Number (a - b)"

text \<open>
  \<^verbatim>\<open>parseInt(v)\<close> turns \<open>v\<close> into a string and reads the decimal digits at its start.
  A Number \<open>x\<close> at or above \<open>10 ^ 21\<close> is written in exponent form, as the shortest
  decimal that still rounds to \<open>x\<close> (\<^verbatim>\<open>1e+21\<close>, \<^verbatim>\<open>1.2676506002282294e+30\<close>), so the
  digits read stop after the first one. \<open>shortest x j\<close> is that shortest decimal, tried
  with the last \<open>Suc j\<close>, then \<open>j\<close>, ... digits zero (of two candidates the nearer to
  \<open>x\<close>, the even one at a tie); \<open>digits10\<close> counts decimal digits and
  \<open>leading_digit\<close> is the first of them. A Number below \<open>10 ^ 21\<close> is written in full and
  read back as itself. An integer that no Number holds can reach \<^verbatim>\<open>parseInt\<close> only as a
  decimal string or a BigInt: all its digits are read and the value is rounded to a
  Number.
\<close>

function digits10 :: "int \<Rightarrow> nat" where
  "digits10 x = (if x < 10 then 1 else Suc (digits10 (x div 10)))"
  by pat_completeness auto
termination
  by (relation "measure nat") auto

declare digits10.simps [simp del]

primrec shortest :: "int \<Rightarrow> nat \<Rightarrow> int" where
  "shortest x 0 = x"
| "shortest x (Suc j) =
     (let u = 10 ^ Suc j; lo = (x div u) * u; hi = lo + u
      in if round_pos lo = x \<and> round_pos hi = x
         then (if x - lo < hi - x then lo
               else if hi - x < x - lo then hi
               else if even (x div u) then lo else hi)
         else if round_pos lo = x then lo
         else if round_pos hi = x then hi
         else shortest x j)"

definition leading_digit :: "int \<Rightarrow> int" where
  "leading_digit y = y div 10 ^ (digits10 y - 1)"

definition parseInt :: "int \<Rightarrow> int" where
  "parseInt n =
     (if to_Number n \<noteq> n then to_Number n
      else if \<bar>n\<bar> < 10 ^ 21 then n
      else sgn n * leading_digit (shortest \<bar>n\<bar> (digits10 \<bar>n\<bar> - 1)))"

subsection \<open>Messages, proofs and chain calls\<close>

text \<open>
  The BetRequest message: what \<^verbatim>\<open>messageGenerator.generateBetRequest\<close> is given
  (line 162), the three fields \<^verbatim>\<open>startBet\<close> reads back from it
  (\<^verbatim>\<open>gameContractAddress\<close>, \<^verbatim>\<open>signatureA\<close>, \<^verbatim>\<open>negativeB\<close>) and the field
  \<^verbatim>\<open>value\<close> that \<^verbatim>\<open>startBet\<close> sets afterwards (line 163).
\<close>

record bet_request =
  req_channelIdentifier :: string
  req_round :: int
  req_betMask :: int
  req_modulo :: int
  req_positiveA :: address
  req_negativeB :: address
  req_hashRa :: string
  req_gameContractAddress :: address
  req_signatureA :: string
  req_value :: "int option"

record coop_settle_request =
  csr_channelIdentifier :: string
  csr_p1 :: address
  csr_p1Balance :: int
  csr_p2 :: address
  csr_p2Balance :: int
  csr_signature :: string

datatype message =
    BetRequestMessage bet_request
  | CooperativeSettleRequestMessage coop_settle_request

text \<open>The objects the proof generator returns, with the fields the class destructures.\<close>

record close_data =
  cd_balanceHash :: string
  cd_nonce :: int
  cd_signature :: string

record settle_data =
  sd_participant1 :: address
  sd_participant1_transferred_amount :: int
  sd_participant1_locked_amount :: int
  sd_participant1_lock_id :: string
  sd_participant2 :: address
  sd_participant2_transferred_amount :: int
  sd_participant2_locked_amount :: int
  sd_participant2_lock_id :: string

record initiator_settle_data =
  isd_channelIdentifier :: string
  isd_round :: int
  isd_betMask :: int
  isd_modulo :: int
  isd_positive :: address
  isd_negative :: address
  isd_initiatorHashR :: string
  isd_initiatorSignature :: string
  isd_acceptorR :: string
  isd_acceptorSignature :: string
  isd_initiatorR :: string

text \<open>One constructor per method of \<^verbatim>\<open>blockchainProxy\<close> that the class calls.\<close>

datatype chain_call =
    Proxy_openChannel address address int int
  | Proxy_deposit address address int
  | Proxy_getChannelIdentifier address
  | Proxy_closeChannel address string int string
  | Proxy_settle address int int string address int int string
  | Proxy_unlock address address string
  | Proxy_initiatorSettle string int int int address address string string string string string

datatype proof_call =
    Proof_getCloseData channel
  | Proof_getSettleData channel string string
  | Proof_getInitiatorSettleData channel bet

text \<open>What the class does to the world outside it, one entry per call.\<close>

datatype effect =
    Db_getChannel string
  | Db_getBetByChannel string "int option"
  | Db_getBet nat
  | Db_getChannels
  | Db_getBets
  | Db_addBet bet
  | Db_updateChannel string int
  | Chain chain_call
  | Proof proof_call
  | Socket_emit string message

subsection \<open>The collaborators\<close>

text \<open>
  The modules \<^verbatim>\<open>Constants\<close>, \<^verbatim>\<open>blockchainProxy\<close>, \<^verbatim>\<open>utils/messageGenerator\<close>,
  \<^verbatim>\<open>utils/proofGenerator\<close>, \<^verbatim>\<open>utils/random\<close>, \<^verbatim>\<open>gameRule\<close> and web3's
  \<^verbatim>\<open>soliditySha3\<close> are required by the class; nothing is assumed about them, they are
  parameters. A chain call and a proof assembly are asynchronous and may reject:
  \<open>Inl name\<close> is a rejection with the error \<open>name\<close>, \<open>Inr v\<close> the value resolved with
  (a channel identifier or a transaction hash for the proxy).
\<close>

record modules =
  CHANNEL_OPENED :: int
  CHANNEL_CLOSED :: int
  CHANNEL_UPDATEBALANCEPROOF :: int
  BET_INIT :: int
  BET_START :: int
  BET_FINISH :: int
  blockchainProxy :: "chain_call \<Rightarrow> string + string"
  generateBetRequest ::
    "string \<Rightarrow> int \<Rightarrow> int \<Rightarrow> int \<Rightarrow> address \<Rightarrow> address \<Rightarrow> string \<Rightarrow> bet_request"
  genreateCooperativeSettleRequest ::
    "string \<Rightarrow> address \<Rightarrow> int \<Rightarrow> address \<Rightarrow> int \<Rightarrow> coop_settle_request"
  getCloseData :: "channel \<Rightarrow> string + close_data"
  getSettleData :: "channel \<Rightarrow> string \<Rightarrow> string \<Rightarrow> string + settle_data"
  getInitiatorSettleData :: "channel \<Rightarrow> bet \<Rightarrow> string + initiator_settle_data"
  generateRandomFromSeed2 :: "string \<Rightarrow> string"
  soliditySha3 :: "string \<Rightarrow> string"
  getPossibleWinAmount :: "int \<Rightarrow> int \<Rightarrow> int \<Rightarrow> int"

subsection \<open>The client\<close>

text \<open>
  The fields of \<^verbatim>\<open>SCClient\<close> that its methods use: \<^verbatim>\<open>this.from\<close>, the rows behind
  \<^verbatim>\<open>this.dbhelper\<close>, \<^verbatim>\<open>this.eventList\<close>, and whether \<^verbatim>\<open>this.socket\<close> has been set
  (the constructor leaves it undefined; \<^verbatim>\<open>initMessageHandler\<close> sets it).

  \<^verbatim>\<open>this.eventList\<close> is a plain object, \<^verbatim>\<open>{}\<close>: it has its own properties, one per
  name assigned so far, and a prototype, which is \<^verbatim>\<open>Object.prototype\<close> at first. A
  callback is a value handed to \<^verbatim>\<open>on\<close>: a function (or other object), known by a
  number and by the property names that cannot be assigned through it when it is a
  prototype (for a plain function \<^verbatim>\<open>name\<close>, \<^verbatim>\<open>length\<close>, \<^verbatim>\<open>arguments\<close> and
  \<^verbatim>\<open>caller\<close>); \<^verbatim>\<open>null\<close>; or a primitive value.
\<close>

datatype callback = Function nat "string list" | Null | Primitive nat

datatype prototype = Object_prototype | Null_prototype | Function_prototype nat "string list"

record event_list =
  el_own :: "string \<rightharpoonup> callback"
  el_proto :: prototype

record SCClient =
  sc_from :: address
  db_channels :: "channel list"
  db_bets :: "bet list"
  sc_eventList :: event_list
  sc_socket :: bool
  trace :: "effect list"

definition constructor :: "channel list \<Rightarrow> bet list \<Rightarrow> address \<Rightarrow> SCClient" where
  "constructor channels bets fromAddress =
     \<lparr>sc_from = fromAddress, db_channels = channels, db_bets = bets,
      sc_eventList = \<lparr>el_own = Map.empty, el_proto = Object_prototype\<rparr>,
      sc_socket = False, trace = []\<rparr>"

definition initMessageHandler :: "SCClient \<Rightarrow> SCClient" where
  "initMessageHandler s = s\<lparr>sc_socket := True\<rparr>"

subsection \<open>The database helper\<close>

text \<open>
  Modelled from the spec: \<^verbatim>\<open>dbhelper\<close> is handed to the constructor and its code is not
  in \<^verbatim>\<open>src/\<close>. The spec's state store adapter keeps two tables, Channels keyed by the
  channel identifier and Bets keyed by channel identifier and round, with
  \<^verbatim>\<open>get_channel(id)\<close>, \<^verbatim>\<open>get_bet(channel_id, round)\<close>, \<^verbatim>\<open>get_bet_by_id(bet_id)\<close>,
  \<^verbatim>\<open>put_bet\<close> and the two listings. A lookup returns the first matching row or nothing
  (\<^verbatim>\<open>null\<close>); a bet's id is its row number, counted from 1; a lookup for the round
  \<^verbatim>\<open>null\<close> finds nothing; \<^verbatim>\<open>updateChannel(id, {currentRound})\<close> sets that one field on
  the rows with that identifier.
\<close>

definition dbhelper_getChannel ::
  "string \<Rightarrow> SCClient \<Rightarrow> channel option \<times> SCClient" where
  "dbhelper_getChannel channelIdentifier s =
     (find (\<lambda>c. ch_channelIdentifier c = channelIdentifier) (db_channels s),
      s\<lparr>trace := trace s @ [Db_getChannel channelIdentifier]\<rparr>)"

definition dbhelper_getBetByChannel ::
  "string \<Rightarrow> int option \<Rightarrow> SCClient \<Rightarrow> bet option \<times> SCClient" where
  "dbhelper_getBetByChannel channelId r s =
     (find (\<lambda>b. bet_channelId b = channelId \<and> Some (bet_round b) = r) (db_bets s),
      s\<lparr>trace := trace s @ [Db_getBetByChannel channelId r]\<rparr>)"

definition dbhelper_getBet :: "nat \<Rightarrow> SCClient \<Rightarrow> bet option \<times> SCClient" where
  "dbhelper_getBet betId s =
     ((if 1 \<le> betId \<and> betId \<le> length (db_bets s) then Some (db_bets s ! (betId - 1)) else None),
      s\<lparr>trace := trace s @ [Db_getBet betId]\<rparr>)"

definition dbhelper_getChannels :: "SCClient \<Rightarrow> channel list \<times> SCClient" where
  "dbhelper_getChannels s = (db_channels s, s\<lparr>trace := trace s @ [Db_getChannels]\<rparr>)"

definition dbhelper_getBets :: "SCClient \<Rightarrow> bet list \<times> SCClient" where
  "dbhelper_getBets s = (db_bets s, s\<lparr>trace := trace s @ [Db_getBets]\<rparr>)"

definition dbhelper_addBet :: "bet \<Rightarrow> SCClient \<Rightarrow> SCClient" where
  "dbhelper_addBet b s = s\<lparr>db_bets := db_bets s @ [b], trace := trace s @ [Db_addBet b]\<rparr>"

definition dbhelper_updateChannel :: "string \<Rightarrow> int \<Rightarrow> SCClient \<Rightarrow> SCClient" where
  "dbhelper_updateChannel channelIdentifier r s =
     s\<lparr>db_channels :=
          map (\<lambda>c. if ch_channelIdentifier c = channelIdentifier
                   then c\<lparr>ch_currentRound := Some r\<rparr> else c) (db_channels s),
       trace := trace s @ [Db_updateChannel channelIdentifier r]\<rparr>"

subsection \<open>Calls on the other collaborators\<close>

definition blockchainProxy_call ::
  "modules \<Rightarrow> chain_call \<Rightarrow> SCClient \<Rightarrow> (string + string) \<times> SCClient" where
  "blockchainProxy_call M c s = (blockchainProxy M c, s\<lparr>trace := trace s @ [Chain c]\<rparr>)"

definition proofGenerator_getCloseData ::
  "modules \<Rightarrow> channel \<Rightarrow> SCClient \<Rightarrow> (string + close_data) \<times> SCClient" where
  "proofGenerator_getCloseData M c s =
     (getCloseData M c, s\<lparr>trace := trace s @ [Proof (Proof_getCloseData c)]\<rparr>)"

definition proofGenerator_getSettleData ::
  "modules \<Rightarrow> channel \<Rightarrow> string \<Rightarrow> string \<Rightarrow> SCClient
     \<Rightarrow> (string + settle_data) \<times> SCClient" where
  "proofGenerator_getSettleData M c l r s =
     (getSettleData M c l r, s\<lparr>trace := trace s @ [Proof (Proof_getSettleData c l r)]\<rparr>)"

definition proofGenerator_getInitiatorSettleData ::
  "modules \<Rightarrow> channel \<Rightarrow> bet \<Rightarrow> SCClient
     \<Rightarrow> (string + initiator_settle_data) \<times> SCClient" where
  "proofGenerator_getInitiatorSettleData M c b s =
     (getInitiatorSettleData M c b,
      s\<lparr>trace := trace s @ [Proof (Proof_getInitiatorSettleData c b)]\<rparr>)"

text \<open>
  \<^verbatim>\<open>this.socket.emit(name, message)\<close>: a \<^verbatim>\<open>TypeError\<close> while \<^verbatim>\<open>this.socket\<close> is
  undefined, the message handed to the transport otherwise.
\<close>

definition socket_emit ::
  "string \<Rightarrow> message \<Rightarrow> SCClient \<Rightarrow> (string + unit) \<times> SCClient" where
  "socket_emit name m s =
     (if sc_socket s then (Inr (), s\<lparr>trace := trace s @ [Socket_emit name m]\<rparr>)
      else (Inl ''TypeError'', s))"

text \<open>\<^verbatim>\<open>return await p\<close> for a proxy call \<open>p\<close>: the method settles as the call did.\<close>

definition settled :: "string + string \<Rightarrow> outcome" where
  "settled r = (case r of Inl e \<Rightarrow> Rejected (JError e) | Inr v \<Rightarrow> Resolved (JStr v))"

text \<open>
  The argument lists of the two long proxy calls: \<^verbatim>\<open>blockchainProxy.settle\<close> takes
  the eight fields of the settle data in their order (line 267),
  \<^verbatim>\<open>blockchainProxy.initiatorSettle\<close> the eleven fields of the initiator-settle data,
  the bet mask through \<^verbatim>\<open>parseInt\<close> (line 302).
\<close>

definition settle_call :: "settle_data \<Rightarrow> chain_call" where
  "settle_call settleData =
     Proxy_settle
       (sd_participant1 settleData)
       (sd_participant1_transferred_amount settleData)
       (sd_participant1_locked_amount settleData)
       (sd_participant1_lock_id settleData)
       (sd_participant2 settleData)
       (sd_participant2_transferred_amount settleData)
       (sd_participant2_locked_amount settleData)
       (sd_participant2_lock_id settleData)"

definition initiatorSettle_call :: "initiator_settle_data \<Rightarrow> chain_call" where
  "initiatorSettle_call initiatorSettleData =
     Proxy_initiatorSettle
       (isd_channelIdentifier initiatorSettleData)
       (isd_round initiatorSettleData)
       (parseInt (isd_betMask initiatorSettleData))
       (isd_modulo initiatorSettleData)
       (isd_positive initiatorSettleData)
       (isd_negative initiatorSettleData)
       (isd_initiatorHashR initiatorSettleData)
       (isd_initiatorSignature initiatorSettleData)
       (isd_acceptorR initiatorSettleData)
       (isd_acceptorSignature initiatorSettleData)
       (isd_initiatorR initiatorSettleData)"

text \<open>
  The assembled initiator-settle proof as the chain takes it, every field as the proof
  generator returned it.
\<close>

definition proof_as_call :: "initiator_settle_data \<Rightarrow> chain_call" where
  "proof_as_call d =
     Proxy_initiatorSettle
       (isd_channelIdentifier d) (isd_round d) (isd_betMask d) (isd_modulo d)
       (isd_positive d) (isd_negative d) (isd_initiatorHashR d) (isd_initiatorSignature d)
       (isd_acceptorR d) (isd_acceptorSignature d) (isd_initiatorR d)"

subsection \<open>The public methods\<close>

text \<open>\<^verbatim>\<open>openChannel\<close> (lines 111-116), with the settle window fixed at 6.\<close>

definition openChannel ::
  "modules \<Rightarrow> SCClient \<Rightarrow> address \<Rightarrow> int \<Rightarrow> outcome \<times> SCClient" where
  "openChannel M s partnerAddress depositAmount =
     (let settle_window = 6 in
      case blockchainProxy_call M
             (Proxy_openChannel (sc_from s) partnerAddress settle_window depositAmount) s of
        (r, s1) \<Rightarrow> (settled r, s1))"

text \<open>\<^verbatim>\<open>deposit\<close> (lines 124-126).\<close>

definition deposit ::
  "modules \<Rightarrow> SCClient \<Rightarrow> address \<Rightarrow> int \<Rightarrow> outcome \<times> SCClient" where
  "deposit M s partnerAddress depositAmount =
     (case blockchainProxy_call M (Proxy_deposit (sc_from s) partnerAddress depositAmount) s of
        (r, s1) \<Rightarrow> (settled r, s1))"

text \<open>
  \<^verbatim>\<open>startBet\<close> (lines 137-199). The first guard returns with no value
  (\<^verbatim>\<open>undefined\<close>), the other two return \<^verbatim>\<open>false\<close>. The round is 1 when the channel's
  \<^verbatim>\<open>currentRound\<close> is \<^verbatim>\<open>null\<close> and \<^verbatim>\<open>currentRound + 1\<close>, a sum of Numbers,
  otherwise. The balance guard compares differences of \<^verbatim>\<open>parseInt\<close> results with 0.
  The bet is added, the channel's round updated and the message emitted, in that order.
\<close>

definition startBet ::
  "modules \<Rightarrow> SCClient \<Rightarrow> string \<Rightarrow> address \<Rightarrow> int \<Rightarrow> int \<Rightarrow> int \<Rightarrow> string
     \<Rightarrow> outcome \<times> SCClient" where
  "startBet M s channelIdentifier partnerAddress betMask modulo' betValue randomSeed =
     (case dbhelper_getChannel channelIdentifier s of
        (None, s1) \<Rightarrow> (Resolved JUndefined, s1)
      | (Some channel, s1) \<Rightarrow>
          if ch_status channel \<noteq> CHANNEL_OPENED M then (Resolved JUndefined, s1)
          else
            (case dbhelper_getBetByChannel channelIdentifier (ch_currentRound channel) s1 of
               (lastBet, s2) \<Rightarrow>
                 if (case lastBet of None \<Rightarrow> False | Some b \<Rightarrow> bet_status b \<noteq> BET_FINISH M)
                 then (Resolved (JBool False), s2)
                 else
                   (let round = (case ch_currentRound channel of None \<Rightarrow> 1 | Some r \<Rightarrow> js_plus r 1);
                        ra = generateRandomFromSeed2 M randomSeed;
                        hashRa = soliditySha3 M ra;
                        betRequestMessage =
                          (generateBetRequest M channelIdentifier round betMask modulo'
                             (sc_from s) partnerAddress hashRa)\<lparr>req_value := Some betValue\<rparr>;
                        winAmount = getPossibleWinAmount M betMask modulo' betValue
                    in
                      if js_minus (parseInt (ch_remoteBalance channel)) (parseInt winAmount) < 0
                         \<or> js_minus (parseInt (ch_localBalance channel)) (parseInt betValue) < 0
                      then (Resolved (JBool False), s2)
                      else
                        (let s3 = dbhelper_addBet
                                    \<lparr>bet_gameContractAddress = req_gameContractAddress betRequestMessage,
                                     bet_channelId = channelIdentifier,
                                     bet_round = round,
                                     bet_betMask = betMask,
                                     bet_modulo = modulo',
                                     bet_value = betValue,
                                     bet_winAmount = winAmount,
                                     bet_positiveA = sc_from s,
                                     bet_hashRa = hashRa,
                                     bet_ra = ra,
                                     bet_signatureA = req_signatureA betRequestMessage,
                                     bet_negativeB = req_negativeB betRequestMessage,
                                     bet_status = BET_INIT M\<rparr> s2;
                             s4 = dbhelper_updateChannel channelIdentifier round s3
                         in
                           case socket_emit ''BetRequest'' (BetRequestMessage betRequestMessage) s4 of
                             (Inl e, s5) \<Rightarrow> (Rejected (JError e), s5)
                           | (Inr _, s5) \<Rightarrow> (Resolved (JBool True), s5)))))"

text \<open>
  \<^verbatim>\<open>closeChannel\<close> (lines 206-223). The guard reads \<^verbatim>\<open>channel.status\<close> without
  testing \<^verbatim>\<open>channel\<close>: with no stored record that read throws a \<^verbatim>\<open>TypeError\<close>.
\<close>

definition closeChannel ::
  "modules \<Rightarrow> SCClient \<Rightarrow> address \<Rightarrow> outcome \<times> SCClient" where
  "closeChannel M s partnerAddress =
     (case blockchainProxy_call M (Proxy_getChannelIdentifier partnerAddress) s of
        (Inl e, s1) \<Rightarrow> (Rejected (JError e), s1)
      | (Inr channelIdentifier, s1) \<Rightarrow>
          (case dbhelper_getChannel channelIdentifier s1 of
             (None, s2) \<Rightarrow> (Rejected (JError ''TypeError''), s2)
           | (Some channel, s2) \<Rightarrow>
               if ch_status channel \<noteq> CHANNEL_OPENED M then (Resolved (JBool False), s2)
               else
                 (case proofGenerator_getCloseData M channel s2 of
                    (Inl e, s3) \<Rightarrow> (Rejected (JError e), s3)
                  | (Inr closeData, s3) \<Rightarrow>
                      (case blockchainProxy_call M
                              (Proxy_closeChannel partnerAddress (cd_balanceHash closeData)
                                 (cd_nonce closeData) (cd_signature closeData)) s3 of
                         (r, s4) \<Rightarrow> (settled r, s4)))))"

text \<open>\<^verbatim>\<open>closeChannelCooperative\<close> (lines 230-248).\<close>

definition closeChannelCooperative ::
  "modules \<Rightarrow> SCClient \<Rightarrow> address \<Rightarrow> outcome \<times> SCClient" where
  "closeChannelCooperative M s partnerAddress =
     (case blockchainProxy_call M (Proxy_getChannelIdentifier partnerAddress) s of
        (Inl e, s1) \<Rightarrow> (Rejected (JError e), s1)
      | (Inr channelIdentifier, s1) \<Rightarrow>
          (case dbhelper_getChannel channelIdentifier s1 of
             (None, s2) \<Rightarrow> (Resolved (JBool False), s2)
           | (Some channel, s2) \<Rightarrow>
               if ch_status channel \<noteq> CHANNEL_OPENED M then (Resolved (JBool False), s2)
               else
                 (let localBalance = ch_localBalance channel;
                      remoteBalance = ch_remoteBalance channel;
                      cooperativeSettleRequestMessage =
                        genreateCooperativeSettleRequest M channelIdentifier (sc_from s)
                          localBalance partnerAddress remoteBalance
                  in
                    case socket_emit ''CooperativeSettleRequest''
                           (CooperativeSettleRequestMessage cooperativeSettleRequestMessage) s2 of
                      (Inl e, s3) \<Rightarrow> (Rejected (JError e), s3)
                    | (Inr _, s3) \<Rightarrow> (Resolved (JBool True), s3))))"

text \<open>\<^verbatim>\<open>settleChannel\<close> (lines 255-268).\<close>

definition settleChannel ::
  "modules \<Rightarrow> SCClient \<Rightarrow> address \<Rightarrow> outcome \<times> SCClient" where
  "settleChannel M s partnerAddress =
     (case blockchainProxy_call M (Proxy_getChannelIdentifier partnerAddress) s of
        (Inl e, s1) \<Rightarrow> (Rejected (JError e), s1)
      | (Inr channelIdentifier, s1) \<Rightarrow>
          (case dbhelper_getChannel channelIdentifier s1 of
             (None, s2) \<Rightarrow> (Resolved (JBool False), s2)
           | (Some channel, s2) \<Rightarrow>
               if ch_status channel \<noteq> CHANNEL_CLOSED M
                  \<and> ch_status channel \<noteq> CHANNEL_UPDATEBALANCEPROOF M
               then (Resolved (JBool False), s2)
               else
                 (case proofGenerator_getSettleData M channel
                         (ch_localCloseBalanceHash channel) (ch_remoteCloseBalanceHash channel) s2 of
                    (Inl e, s3) \<Rightarrow> (Rejected (JError e), s3)
                  | (Inr settleData, s3) \<Rightarrow>
                      (case blockchainProxy_call M (settle_call settleData) s3 of
                         (r, s4) \<Rightarrow> (settled r, s4)))))"

text \<open>
  \<^verbatim>\<open>unlockChannel\<close> (lines 277-279): the proxy's promise is awaited and its value
  dropped; the method has no \<^verbatim>\<open>return\<close>.
\<close>

definition unlockChannel ::
  "modules \<Rightarrow> SCClient \<Rightarrow> address \<Rightarrow> string \<Rightarrow> outcome \<times> SCClient" where
  "unlockChannel M s partnerAddress lockIdentifier =
     (case blockchainProxy_call M (Proxy_unlock (sc_from s) partnerAddress lockIdentifier) s of
        (Inl e, s1) \<Rightarrow> (Rejected (JError e), s1)
      | (Inr _, s1) \<Rightarrow> (Resolved JUndefined, s1))"

text \<open>
  \<^verbatim>\<open>initiatorSettle\<close> (lines 287-303): both rows are read first, then the channel is
  checked, then the bet.
\<close>

definition initiatorSettle ::
  "modules \<Rightarrow> SCClient \<Rightarrow> string \<Rightarrow> nat \<Rightarrow> outcome \<times> SCClient" where
  "initiatorSettle M s channelIdentifier betId =
     (case dbhelper_getChannel channelIdentifier s of
        (channel, s1) \<Rightarrow>
          (case dbhelper_getBet betId s1 of
             (bet, s2) \<Rightarrow>
               (case channel of
                  None \<Rightarrow> (Resolved (JBool False), s2)
                | Some channel \<Rightarrow>
                    if ch_status channel \<noteq> CHANNEL_CLOSED M
                       \<and> ch_status channel \<noteq> CHANNEL_UPDATEBALANCEPROOF M
                    then (Resolved (JBool False), s2)
                    else
                      (case bet of
                         None \<Rightarrow> (Resolved (JBool False), s2)
                       | Some bet \<Rightarrow>
                           if bet_status bet < BET_START M \<or> bet_status bet = BET_FINISH M
                           then (Resolved (JBool False), s2)
                           else
                             (case proofGenerator_getInitiatorSettleData M channel bet s2 of
                                (Inl e, s3) \<Rightarrow> (Rejected (JError e), s3)
                              | (Inr initiatorSettleData, s3) \<Rightarrow>
                                  (case blockchainProxy_call M
                                          (initiatorSettle_call initiatorSettleData) s3 of
                                     (r, s4) \<Rightarrow> (settled r, s4)))))))"

text \<open>\<^verbatim>\<open>getAllChannels\<close> (lines 310-312).\<close>

definition getAllChannels :: "SCClient \<Rightarrow> outcome \<times> SCClient" where
  "getAllChannels s = (case dbhelper_getChannels s of (cs, s1) \<Rightarrow> (Resolved (JChannels cs), s1))"

text \<open>\<^verbatim>\<open>getChannel\<close> (lines 319-321): the body is \<^verbatim>\<open>return {}\<close>.\<close>

definition getChannel :: "SCClient \<Rightarrow> address \<Rightarrow> outcome \<times> SCClient" where
  "getChannel s partnerAddress = (Resolved JEmptyObject, s)"

text \<open>\<^verbatim>\<open>getAllBets\<close> (lines 330-332): the three arguments are not passed on.\<close>

definition getAllBets :: "SCClient \<Rightarrow> outcome \<times> SCClient" where
  "getAllBets s = (case dbhelper_getBets s of (bs, s1) \<Rightarrow> (Resolved (JBets bs), s1))"

text \<open>\<^verbatim>\<open>getBetById\<close> (lines 339-341).\<close>

definition getBetById :: "SCClient \<Rightarrow> nat \<Rightarrow> outcome \<times> SCClient" where
  "getBetById s betId =
     (case dbhelper_getBet betId s of
        (None, s1) \<Rightarrow> (Resolved JNull, s1)
      | (Some b, s1) \<Rightarrow> (Resolved (JBet b), s1))"

text \<open>
  The assignment \<^verbatim>\<open>eventList[event] = callback\<close> on the plain object, in the strict
  mode of a class body. An own property of that name is overwritten. Otherwise the
  name is looked up along the prototype chain: \<^verbatim>\<open>__proto__\<close> is found on
  \<^verbatim>\<open>Object.prototype\<close> as an accessor, whose setter makes an object or \<^verbatim>\<open>null\<close>
  the new prototype, ignores a primitive, and stores no property; a name that the
  prototype holds read-only makes the assignment throw a \<^verbatim>\<open>TypeError\<close>; any other
  name becomes a new own property. With the prototype \<^verbatim>\<open>null\<close> there is no accessor
  and every name becomes an own property.
\<close>

definition set_prototype :: "event_list \<Rightarrow> callback \<Rightarrow> event_list" where
  "set_prototype el callback =
     (case callback of
        Function i readonly \<Rightarrow> el\<lparr>el_proto := Function_prototype i readonly\<rparr>
      | Null \<Rightarrow> el\<lparr>el_proto := Null_prototype\<rparr>
      | Primitive v \<Rightarrow> el)"

definition assign :: "event_list \<Rightarrow> string \<Rightarrow> callback \<Rightarrow> string + event_list" where
  "assign el event callback =
     (case el_own el event of
        Some previous \<Rightarrow> Inr (el\<lparr>el_own := (el_own el)(event \<mapsto> callback)\<rparr>)
      | None \<Rightarrow>
          (case el_proto el of
             Null_prototype \<Rightarrow> Inr (el\<lparr>el_own := (el_own el)(event \<mapsto> callback)\<rparr>)
           | Object_prototype \<Rightarrow>
               if event = ''__proto__'' then Inr (set_prototype el callback)
               else Inr (el\<lparr>el_own := (el_own el)(event \<mapsto> callback)\<rparr>)
           | Function_prototype i readonly \<Rightarrow>
               if event = ''__proto__'' then Inr (set_prototype el callback)
               else if event \<in> set readonly then Inl ''TypeError''
               else Inr (el\<lparr>el_own := (el_own el)(event \<mapsto> callback)\<rparr>)))"

text \<open>
  \<^verbatim>\<open>on\<close> (lines 349-356): the assignment, then \<^verbatim>\<open>return this\<close>; \<open>Inl\<close> is the error
  thrown. \<open>on_all\<close> is a run of registrations, first to last, as
  \<^verbatim>\<open>c.on(e1, f1).on(e2, f2)\<close> chains them; it ends at the first one that throws.
\<close>

definition on :: "SCClient \<Rightarrow> string \<Rightarrow> callback \<Rightarrow> string + SCClient" where
  "on s event callback =
     (case assign (sc_eventList s) event callback of
        Inl e \<Rightarrow> Inl e
      | Inr el \<Rightarrow> Inr (s\<lparr>sc_eventList := el\<rparr>))"

fun on_all :: "SCClient \<Rightarrow> (string \<times> callback) list \<Rightarrow> string + SCClient" where
  "on_all s [] = Inr s"
| "on_all s ((event, callback) # rest) =
     (case on s event callback of
        Inl e \<Rightarrow> Inl e
      | Inr s1 \<Rightarrow> on_all s1 rest)"

subsection \<open>Reading a trace and an outcome\<close>

fun is_emit :: "effect \<Rightarrow> bool" where
  "is_emit (Socket_emit _ _) = True"
| "is_emit _ = False"

fun is_chain :: "effect \<Rightarrow> bool" where
  "is_chain (Chain _) = True"
| "is_chain _ = False"

fun is_proof :: "effect \<Rightarrow> bool" where
  "is_proof (Proof _) = True"
| "is_proof _ = False"

text \<open>Any use of the database helper, a read or a write.\<close>

fun is_db :: "effect \<Rightarrow> bool" where
  "is_db (Chain _) = False"
| "is_db (Proof _) = False"
| "is_db (Socket_emit _ _) = False"
| "is_db _ = True"

text \<open>
  The spec's tagged error variants (its section on error handling): an outcome carries
  the variant \<open>name\<close> when the promise rejects with, or resolves to, an error of that
  name.
\<close>

definition tagged_error :: "string \<Rightarrow> outcome \<Rightarrow> bool" where
  "tagged_error name out = (out = Rejected (JError name) \<or> out = Resolved (JError name))"

text \<open>
  The spec's \<^verbatim>\<open>current_round\<close> of a channel row, a number: 0 while no bet has been
  initiated, which is how the row's \<^verbatim>\<open>currentRound\<close> being \<^verbatim>\<open>null\<close> is read.
\<close>

definition current_round :: "channel \<Rightarrow> int" where
  "current_round c = (case ch_currentRound c of None \<Rightarrow> 0 | Some r \<Rightarrow> r)"

text \<open>The channel exists and its status is Closed or UpdateBalanceProof.\<close>

definition closed_or_updated :: "modules \<Rightarrow> channel option \<Rightarrow> bool" where
  "closed_or_updated M c =
     (case c of
        None \<Rightarrow> False
      | Some channel \<Rightarrow>
          ch_status channel = CHANNEL_CLOSED M \<or> ch_status channel = CHANNEL_UPDATEBALANCEPROOF M)"

subsection \<open>A concrete setting\<close>

text \<open>
  Modelled from the spec: the module \<^verbatim>\<open>Constants\<close> is not in \<^verbatim>\<open>src/\<close>. The status codes
  number the spec's statuses in the order it lists them: channels Opened 1, Closed 2,
  UpdateBalanceProof 3; bets Init 0, Start 1, ..., Finish 7. The other collaborators are
  samples: a chain that resolves every call, a message generator that copies its
  arguments, proof assemblers that return fixed data, and a game rule that pays
  \<^verbatim>\<open>value * modulo / 6\<close> (100 for the spec's scenario S2). \<open>plain_function i\<close> is a
  callback that is an ordinary function.
\<close>

definition sample_modules :: modules where
  "sample_modules =
     \<lparr>CHANNEL_OPENED = 1, CHANNEL_CLOSED = 2, CHANNEL_UPDATEBALANCEPROOF = 3,
      BET_INIT = 0, BET_START = 1, BET_FINISH = 7,
      blockchainProxy =
        (\<lambda>c. case c of Proxy_getChannelIdentifier p \<Rightarrow> Inr ''0xc1'' | _ \<Rightarrow> Inr ''0xtx''),
      generateBetRequest =
        (\<lambda>channelIdentifier r betMask m positiveA negativeB hashRa.
           \<lparr>req_channelIdentifier = channelIdentifier, req_round = r, req_betMask = betMask,
            req_modulo = m, req_positiveA = positiveA, req_negativeB = negativeB,
            req_hashRa = hashRa, req_gameContractAddress = ''0x406a'',
            req_signatureA = ''sigA'', req_value = None\<rparr>),
      genreateCooperativeSettleRequest =
        (\<lambda>channelIdentifier p1 b1 p2 b2.
           \<lparr>csr_channelIdentifier = channelIdentifier, csr_p1 = p1, csr_p1Balance = b1,
            csr_p2 = p2, csr_p2Balance = b2, csr_signature = ''sig''\<rparr>),
      getCloseData =
        (\<lambda>c. Inr \<lparr>cd_balanceHash = ''0xbh'', cd_nonce = 1, cd_signature = ''sigB''\<rparr>),
      getSettleData =
        (\<lambda>c l r. Inr \<lparr>sd_participant1 = ''0xA'', sd_participant1_transferred_amount = 0,
                       sd_participant1_locked_amount = 0, sd_participant1_lock_id = l,
                       sd_participant2 = ''0xB'', sd_participant2_transferred_amount = 0,
                       sd_participant2_locked_amount = 0, sd_participant2_lock_id = r\<rparr>),
      getInitiatorSettleData =
        (\<lambda>c b. Inr \<lparr>isd_channelIdentifier = bet_channelId b, isd_round = bet_round b,
                     isd_betMask = bet_betMask b, isd_modulo = bet_modulo b,
                     isd_positive = bet_positiveA b, isd_negative = bet_negativeB b,
                     isd_initiatorHashR = bet_hashRa b,
                     isd_initiatorSignature = bet_signatureA b,
                     isd_acceptorR = ''rb'', isd_acceptorSignature = ''sigB'',
                     isd_initiatorR = bet_ra b\<rparr>),
      generateRandomFromSeed2 = (\<lambda>seed. ''ra'' @ seed),
      soliditySha3 = (\<lambda>x. ''h'' @ x),
      getPossibleWinAmount = (\<lambda>betMask m v. v * m div 6)\<rparr>"

text \<open>A channel with partner \<^verbatim>\<open>0xB\<close>, 1000 on each side, in the given status and round.\<close>

definition sample_channel :: "int \<Rightarrow> int option \<Rightarrow> channel" where
  "sample_channel st r =
     \<lparr>ch_channelIdentifier = ''0xc1'', ch_partner = ''0xB'', ch_status = st,
      ch_currentRound = r, ch_localBalance = 1000, ch_remoteBalance = 1000,
      ch_localCloseBalanceHash = ''0xl'', ch_remoteCloseBalanceHash = ''0xr''\<rparr>"

text \<open>The bet of round 1 on that channel (the spec's scenario S2), in the given status.\<close>

definition sample_bet :: "int \<Rightarrow> bet" where
  "sample_bet st =
     \<lparr>bet_gameContractAddress = ''0x406a'', bet_channelId = ''0xc1'', bet_round = 1,
      bet_betMask = 63, bet_modulo = 6, bet_value = 100, bet_winAmount = 100,
      bet_positiveA = ''0xA'', bet_hashRa = ''hra'', bet_ra = ''ra'',
      bet_signatureA = ''sigA'', bet_negativeB = ''0xB'', bet_status = st\<rparr>"

text \<open>A client of \<^verbatim>\<open>0xA\<close> over the given rows, with the socket set.\<close>

definition sample_client :: "channel list \<Rightarrow> bet list \<Rightarrow> SCClient" where
  "sample_client channels bets = initMessageHandler (constructor channels bets ''0xA'')"

definition plain_function :: "nat \<Rightarrow> callback" where
  "plain_function i = Function i [''name'', ''length'', ''arguments'', ''caller'']"

section \<open>Properties of the methods\<close>

subsection \<open>Numbers in the safe range\<close>

text \<open>
  Up to \<open>2 ^ 53\<close> in magnitude nothing is rounded: sums, differences and
  \<^verbatim>\<open>parseInt\<close> are exact. The first integer that is lost is \<open>2 ^ 53 + 1\<close>, and
  \<^verbatim>\<open>parseInt\<close> of the Number \<open>10 ^ 21\<close> is 1.
\<close>

lemma to_Number_safe: "\<bar>x\<bar> < 2 ^ 53 \<Longrightarrow> to_Number x = x"
  by (auto simp: to_Number_def round_pos_def)

lemma to_Number_two_53: "to_Number 9007199254740992 = 9007199254740992"
  by code_simp

lemma to_Number_after_two_53: "to_Number 9007199254740993 = 9007199254740992"
  by code_simp

lemma parseInt_safe: "\<bar>n\<bar> < 2 ^ 53 \<Longrightarrow> parseInt n = n"
  by (simp add: parseInt_def to_Number_safe)

lemma parseInt_1e21: "parseInt 1000000000000000000000 = 1"
  by code_simp

lemma js_plus_one_safe: "\<bar>r\<bar> < 2 ^ 53 \<Longrightarrow> js_plus r 1 = r + 1"
proof -
  assume a: "\<bar>r\<bar> < 2 ^ 53"
  then have "\<bar>r + 1\<bar> < 2 ^ 53 \<or> r + 1 = 9007199254740992" by auto
  then show ?thesis
    using to_Number_two_53 by (auto simp: js_plus_def to_Number_safe)
qed

lemma js_minus_safe:
  "0 \<le> a \<Longrightarrow> a < 2 ^ 53 \<Longrightarrow> 0 \<le> b \<Longrightarrow> b < 2 ^ 53 \<Longrightarrow> js_minus a b = a - b"
  by (simp add: js_minus_def to_Number_safe)

subsection \<open>Unfolding the methods and the concrete setting\<close>

lemmas startBet_unfold =
  startBet_def dbhelper_getChannel_def dbhelper_getBetByChannel_def dbhelper_addBet_def
  dbhelper_updateChannel_def socket_emit_def Let_def

lemmas settle_unfold =
  settleChannel_def initiatorSettle_def closeChannel_def blockchainProxy_call_def
  dbhelper_getBet_def proofGenerator_getSettleData_def
  proofGenerator_getInitiatorSettleData_def proofGenerator_getCloseData_def settled_def

lemmas sample_unfold =
  sample_modules_def sample_client_def sample_channel_def sample_bet_def constructor_def
  initMessageHandler_def

subsection \<open>Starting a bet\<close>

text \<open>
  Claim C1 does not hold of the code. The channel is Closed (2) and its bet of the
  current round is unfinished (3). The first guard of \<^verbatim>\<open>startBet\<close> (lines 142-145)
  returns before the bet is looked at, with a bare \<^verbatim>\<open>return\<close>: the call resolves to
  \<^verbatim>\<open>undefined\<close>, not to \<^verbatim>\<open>false\<close>, where the documentation (line 135) promises a
  Boolean and the two guards that follow return \<^verbatim>\<open>false\<close>.
\<close>

theorem startBet_not_opened_returns_undefined:
  "fst (dbhelper_getChannel ''0xc1'' (sample_client [sample_channel 2 (Some 1)] [sample_bet 3]))
     = Some (sample_channel 2 (Some 1))
   \<and> fst (dbhelper_getBetByChannel ''0xc1'' (ch_currentRound (sample_channel 2 (Some 1)))
            (sample_client [sample_channel 2 (Some 1)] [sample_bet 3])) = Some (sample_bet 3)
   \<and> bet_status (sample_bet 3) \<noteq> BET_FINISH sample_modules
   \<and> fst (startBet sample_modules (sample_client [sample_channel 2 (Some 1)] [sample_bet 3])
            ''0xc1'' ''0xB'' 63 6 100 ''seed'') = Resolved JUndefined
   \<and> fst (startBet sample_modules (sample_client [sample_channel 2 (Some 1)] [sample_bet 3])
            ''0xc1'' ''0xB'' 63 6 100 ''seed'') \<noteq> Resolved (JBool False)"
  by (simp add: startBet_unfold sample_unfold)

text \<open>
  On an Opened channel, with balances, stake and win amount in the safe range, the
  refusal is as documented: \<^verbatim>\<open>false\<close>, after the two reads and nothing else.
\<close>

lemma startBet_refuses_in_range:
  assumes "fst (dbhelper_getChannel channelIdentifier s) = Some channel"
    and "ch_status channel = CHANNEL_OPENED M"
    and "(\<exists>b. fst (dbhelper_getBetByChannel channelIdentifier (ch_currentRound channel) s) = Some b
              \<and> bet_status b \<noteq> BET_FINISH M)
         \<or> ch_localBalance channel < betValue
         \<or> ch_remoteBalance channel < getPossibleWinAmount M betMask modulo' betValue"
    and "0 \<le> ch_localBalance channel" "ch_localBalance channel < 2 ^ 53"
    and "0 \<le> ch_remoteBalance channel" "ch_remoteBalance channel < 2 ^ 53"
    and "0 \<le> betValue" "betValue < 2 ^ 53"
    and "0 \<le> getPossibleWinAmount M betMask modulo' betValue"
    and "getPossibleWinAmount M betMask modulo' betValue < 2 ^ 53"
  shows "startBet M s channelIdentifier partnerAddress betMask modulo' betValue randomSeed
           = (Resolved (JBool False),
              s\<lparr>trace := trace s @
                   [Db_getChannel channelIdentifier,
                    Db_getBetByChannel channelIdentifier (ch_currentRound channel)]\<rparr>)"
  using assms by (auto simp: startBet_unfold parseInt_safe js_minus_safe split: option.splits)

text \<open>
  Outside that range the balance guard (line 172) can let an insufficient balance
  through: a stake of \<open>10 ^ 21\<close> is read by \<^verbatim>\<open>parseInt\<close> as 1, and the bet is accepted
  on a balance of 1000.
\<close>

lemma startBet_accepts_stake_1e21:
  "ch_localBalance (sample_channel 1 (Some 1)) < 1000000000000000000000
   \<and> fst (startBet sample_modules (sample_client [sample_channel 1 (Some 1)] [sample_bet 7])
            ''0xc1'' ''0xB'' 63 6 1000000000000000000000 ''seed'') = Resolved (JBool True)"
  by (simp add: startBet_unfold sample_unfold parseInt_1e21 parseInt_safe js_minus_safe)

text \<open>
  What a successful \<^verbatim>\<open>startBet\<close> leaves behind: the channel's rows carry the new
  round, one bet row is appended, the socket is set, and the trace grows by the two
  reads, the two writes and the emit, in that order.
\<close>

lemma find_updated_row:
  "find (\<lambda>c. ch_channelIdentifier c = k) cs = Some c \<Longrightarrow>
   find (\<lambda>c. ch_channelIdentifier c = k)
     (map (\<lambda>c. if ch_channelIdentifier c = k then c\<lparr>ch_currentRound := Some r\<rparr> else c) cs)
     = Some (c\<lparr>ch_currentRound := Some r\<rparr>)"
  by (induction cs) (auto split: if_splits)

lemma startBet_success:
  assumes "fst (dbhelper_getChannel channelIdentifier s) = Some channel"
    and "fst (startBet M s channelIdentifier partnerAddress betMask modulo' betValue randomSeed)
           = Resolved (JBool True)"
  shows "\<exists>b m r.
           db_channels (snd (startBet M s channelIdentifier partnerAddress betMask modulo' betValue randomSeed))
             = map (\<lambda>c. if ch_channelIdentifier c = channelIdentifier
                        then c\<lparr>ch_currentRound := Some r\<rparr> else c) (db_channels s)
         \<and> db_bets (snd (startBet M s channelIdentifier partnerAddress betMask modulo' betValue randomSeed))
             = db_bets s @ [b]
         \<and> trace (snd (startBet M s channelIdentifier partnerAddress betMask modulo' betValue randomSeed))
             = trace s @
                  [Db_getChannel channelIdentifier,
                   Db_getBetByChannel channelIdentifier (ch_currentRound channel),
                   Db_addBet b,
                   Db_updateChannel channelIdentifier r,
                   Socket_emit ''BetRequest'' (BetRequestMessage m)]
         \<and> sc_socket (snd (startBet M s channelIdentifier partnerAddress betMask modulo' betValue randomSeed))
         \<and> r = (case ch_currentRound channel of None \<Rightarrow> 1 | Some k \<Rightarrow> js_plus k 1)
         \<and> bet_channelId b = channelIdentifier \<and> bet_round b = r
         \<and> bet_status b = BET_INIT M \<and> req_value m = Some betValue"
  using assms
  by (simp add: startBet_unfold split: option.splits if_splits)


text \<open>
  Claim C2, as the code has it. Every \<^verbatim>\<open>startBet\<close> call that succeeds (resolves to
  \<^verbatim>\<open>true\<close>) on a channel whose current round is below \<open>2 ^ 53\<close> in magnitude leaves
  the channel with a current round exactly one more than before, a round that was never
  set counting as 0.
\<close>

theorem startBet_advances_round_by_one:
  assumes "fst (dbhelper_getChannel channelIdentifier s) = Some channel"
    and "fst (startBet M s channelIdentifier partnerAddress betMask modulo' betValue randomSeed)
           = Resolved (JBool True)"
    and "\<bar>current_round channel\<bar> < 2 ^ 53"
  shows "map_option current_round
           (fst (dbhelper_getChannel channelIdentifier
                  (snd (startBet M s channelIdentifier partnerAddress betMask modulo' betValue
                          randomSeed))))
         = Some (current_round channel + 1)"
proof -
  from startBet_success [OF assms(1,2)] obtain r where
    rows: "db_channels (snd (startBet M s channelIdentifier partnerAddress betMask modulo' betValue randomSeed))
          = map (\<lambda>c. if ch_channelIdentifier c = channelIdentifier
                     then c\<lparr>ch_currentRound := Some r\<rparr> else c) (db_channels s)"
    and r: "r = (case ch_currentRound channel of None \<Rightarrow> 1 | Some k \<Rightarrow> js_plus k 1)"
    by auto
  from r assms(3) have "r = current_round channel + 1"
    by (auto simp: current_round_def js_plus_one_safe split: option.splits)
  moreover from assms(1)
  have "find (\<lambda>c. ch_channelIdentifier c = channelIdentifier) (db_channels s) = Some channel"
    by (simp add: dbhelper_getChannel_def)
  ultimately show ?thesis using rows
    by (simp add: dbhelper_getChannel_def find_updated_row current_round_def)
qed

text \<open>An Opened channel of round 1 whose bet of round 1 is finished: the round becomes 2.\<close>

theorem startBet_advances_round_by_one_witness:
  "fst (startBet sample_modules (sample_client [sample_channel 1 (Some 1)] [sample_bet 7])
          ''0xc1'' ''0xB'' 63 6 100 ''seed'') = Resolved (JBool True)
   \<and> current_round (sample_channel 1 (Some 1)) = 1
   \<and> map_option current_round
       (fst (dbhelper_getChannel ''0xc1''
          (snd (startBet sample_modules (sample_client [sample_channel 1 (Some 1)] [sample_bet 7])
                  ''0xc1'' ''0xB'' 63 6 100 ''seed''))))
     = Some 2"
proof -
  let ?s = "sample_client [sample_channel 1 (Some 1)] [sample_bet 7]"
  have stored: "fst (dbhelper_getChannel ''0xc1'' ?s) = Some (sample_channel 1 (Some 1))"
    by (simp add: dbhelper_getChannel_def sample_unfold)
  have success: "fst (startBet sample_modules ?s ''0xc1'' ''0xB'' 63 6 100 ''seed'')
                   = Resolved (JBool True)"
    by (simp add: startBet_unfold sample_unfold parseInt_safe js_minus_safe js_plus_one_safe)
  have before: "current_round (sample_channel 1 (Some 1)) = 1"
    by (simp add: current_round_def sample_channel_def)
  have safe: "\<bar>current_round (sample_channel 1 (Some 1))\<bar> < 2 ^ 53"
    by (simp add: before)
  from startBet_advances_round_by_one [OF stored success safe] before success
  show ?thesis by simp
qed

text \<open>
  Claim C2 as it is written fails once the round has reached \<open>2 ^ 53\<close>: the sum
  \<^verbatim>\<open>currentRound + 1\<close> of line 154 is a sum of Numbers and gives \<open>2 ^ 53\<close> again, so a
  successful call writes the same round back.
\<close>

theorem startBet_round_absorbed_counterexample:
  "fst (dbhelper_getChannel ''0xc1'' (sample_client [sample_channel 1 (Some 9007199254740992)] []))
     = Some (sample_channel 1 (Some 9007199254740992))
   \<and> current_round (sample_channel 1 (Some 9007199254740992)) = 9007199254740992
   \<and> fst (startBet sample_modules (sample_client [sample_channel 1 (Some 9007199254740992)] [])
            ''0xc1'' ''0xB'' 63 6 100 ''seed'') = Resolved (JBool True)
   \<and> map_option current_round
       (fst (dbhelper_getChannel ''0xc1''
          (snd (startBet sample_modules (sample_client [sample_channel 1 (Some 9007199254740992)] [])
                  ''0xc1'' ''0xB'' 63 6 100 ''seed''))))
     = Some 9007199254740992"
  by (simp add: startBet_unfold sample_unfold current_round_def parseInt_safe js_minus_safe
      js_plus_def to_Number_after_two_53)



subsection \<open>A channel with no stored record\<close>

text \<open>
  Claim C4, as the code has it. The class has no tagged error variants. When the
  channel has no stored record, \<^verbatim>\<open>initiatorSettle\<close> resolves to the plain value
  \<^verbatim>\<open>false\<close>, and so does \<^verbatim>\<open>settleChannel\<close> when that channel is the one whose
  identifier the blockchain proxy returns for the partner; \<^verbatim>\<open>startBet\<close> ends without
  adding a bet, changing a channel or emitting a message. In none of the three is the
  outcome a tagged error variant, \<^verbatim>\<open>UnknownChannel\<close> or any other.
\<close>

theorem unknown_channel_plain_refusal:
  assumes "fst (dbhelper_getChannel channelIdentifier s) = None"
  shows "fst (initiatorSettle M s channelIdentifier betId) = Resolved (JBool False)
       \<and> (blockchainProxy M (Proxy_getChannelIdentifier partnerAddress) = Inr channelIdentifier \<longrightarrow>
            fst (settleChannel M s partnerAddress) = Resolved (JBool False)
            \<and> \<not> tagged_error name (fst (settleChannel M s partnerAddress)))
       \<and> \<not> tagged_error name (fst (initiatorSettle M s channelIdentifier betId))
       \<and> \<not> tagged_error name
             (fst (startBet M s channelIdentifier partner betMask modulo' betValue randomSeed))
       \<and> db_bets (snd (startBet M s channelIdentifier partner betMask modulo' betValue randomSeed))
           = db_bets s
       \<and> db_channels (snd (startBet M s channelIdentifier partner betMask modulo' betValue randomSeed))
           = db_channels s
       \<and> filter is_emit (trace (snd (startBet M s channelIdentifier partner betMask modulo' betValue randomSeed)))
           = filter is_emit (trace s)"
  using assms by (simp add: startBet_unfold settle_unfold tagged_error_def)

text \<open>A client with empty tables.\<close>

theorem unknown_channel_plain_refusal_witness:
  "fst (initiatorSettle sample_modules (sample_client [] []) ''0xc1'' 1) = Resolved (JBool False)
   \<and> fst (settleChannel sample_modules (sample_client [] []) ''0xB'') = Resolved (JBool False)
   \<and> \<not> tagged_error ''UnknownChannel''
         (fst (startBet sample_modules (sample_client [] []) ''0xc1'' ''0xB'' 63 6 100 ''seed''))
   \<and> db_bets (snd (startBet sample_modules (sample_client [] []) ''0xc1'' ''0xB'' 63 6 100 ''seed''))
       = []
   \<and> db_channels (snd (startBet sample_modules (sample_client [] []) ''0xc1'' ''0xB'' 63 6 100 ''seed''))
       = []"
proof -
  have unknown: "fst (dbhelper_getChannel ''0xc1'' (sample_client [] [])) = None"
    by (simp add: dbhelper_getChannel_def sample_unfold)
  have lookup: "blockchainProxy sample_modules (Proxy_getChannelIdentifier ''0xB'') = Inr ''0xc1''"
    by (simp add: sample_modules_def)
  have empty: "db_bets (sample_client [] []) = []" "db_channels (sample_client [] []) = []"
    by (simp_all add: sample_unfold)
  from unknown_channel_plain_refusal
         [OF unknown, of sample_modules 1 "''0xB''" "''UnknownChannel''" "''0xB''" 63 6 100 "''seed''"]
       lookup empty
  show ?thesis by simp
qed

text \<open>
  Claim C4 as it is written fails for each of the four methods. With empty tables,
  \<^verbatim>\<open>startBet\<close> resolves to \<^verbatim>\<open>undefined\<close>, \<^verbatim>\<open>settleChannel\<close> and
  \<^verbatim>\<open>initiatorSettle\<close> to \<^verbatim>\<open>false\<close>, and \<^verbatim>\<open>closeChannel\<close> rejects with the
  \<^verbatim>\<open>TypeError\<close> of reading \<^verbatim>\<open>channel.status\<close>; none is the variant
  \<^verbatim>\<open>UnknownChannel\<close>.
\<close>

theorem unknown_channel_not_tagged_counterexample:
  "fst (dbhelper_getChannel ''0xc1'' (sample_client [] [])) = None
   \<and> blockchainProxy sample_modules (Proxy_getChannelIdentifier ''0xB'') = Inr ''0xc1''
   \<and> fst (startBet sample_modules (sample_client [] []) ''0xc1'' ''0xB'' 63 6 100 ''seed'')
       = Resolved JUndefined
   \<and> fst (settleChannel sample_modules (sample_client [] []) ''0xB'') = Resolved (JBool False)
   \<and> fst (initiatorSettle sample_modules (sample_client [] []) ''0xc1'' 1) = Resolved (JBool False)
   \<and> fst (closeChannel sample_modules (sample_client [] []) ''0xB'') = Rejected (JError ''TypeError'')
   \<and> \<not> tagged_error ''UnknownChannel''
         (fst (startBet sample_modules (sample_client [] []) ''0xc1'' ''0xB'' 63 6 100 ''seed''))
   \<and> \<not> tagged_error ''UnknownChannel''
         (fst (settleChannel sample_modules (sample_client [] []) ''0xB''))
   \<and> \<not> tagged_error ''UnknownChannel''
         (fst (initiatorSettle sample_modules (sample_client [] []) ''0xc1'' 1))
   \<and> \<not> tagged_error ''UnknownChannel''
         (fst (closeChannel sample_modules (sample_client [] []) ''0xB''))"
  by (simp add: startBet_unfold settle_unfold sample_unfold tagged_error_def)

subsection \<open>Settling a bet on the chain\<close>

text \<open>
  With a bet mask in the safe range, \<^verbatim>\<open>parseInt\<close> leaves it as it is, and the call
  that \<^verbatim>\<open>initiatorSettle\<close> makes on the chain carries the proof unchanged.
\<close>

lemma initiatorSettle_call_safe:
  "\<bar>isd_betMask d\<bar> < 2 ^ 53 \<Longrightarrow> initiatorSettle_call d = proof_as_call d"
  by (simp add: initiatorSettle_call_def proof_as_call_def parseInt_safe)

text \<open>
  Claim C5, as the code has it. For every stored bet whose status is at least Start and
  is not Finish, in a stored channel whose status is Closed or UpdateBalanceProof, once
  the proof generator has assembled the initiator-settle data, with a bet mask below
  \<open>2 ^ 53\<close> in magnitude, \<^verbatim>\<open>initiatorSettle\<close> submits those data unchanged to the chain
  and resolves to the transaction hash the chain returns. The calls are the two reads,
  the assembly and the submission, in that order.
\<close>

theorem initiatorSettle_submits_proof:
  assumes "fst (dbhelper_getChannel channelIdentifier s) = Some channel"
    and "ch_status channel = CHANNEL_CLOSED M \<or> ch_status channel = CHANNEL_UPDATEBALANCEPROOF M"
    and "fst (dbhelper_getBet betId s) = Some bet"
    and "BET_START M \<le> bet_status bet"
    and "bet_status bet \<noteq> BET_FINISH M"
    and "getInitiatorSettleData M channel bet = Inr initiatorSettleData"
    and "\<bar>isd_betMask initiatorSettleData\<bar> < 2 ^ 53"
    and "blockchainProxy M (proof_as_call initiatorSettleData) = Inr txHash"
  shows "fst (initiatorSettle M s channelIdentifier betId) = Resolved (JStr txHash)
       \<and> trace (snd (initiatorSettle M s channelIdentifier betId))
           = trace s @
               [Db_getChannel channelIdentifier, Db_getBet betId,
                Proof (Proof_getInitiatorSettleData channel bet),
                Chain (proof_as_call initiatorSettleData)]"
  using assms initiatorSettle_call_safe [OF assms(7)]
  by (auto simp: settle_unfold dbhelper_getChannel_def split: if_splits)

text \<open>A Closed channel and its bet of round 1 at LockedTransferRSent (3).\<close>

theorem initiatorSettle_submits_proof_witness:
  "fst (initiatorSettle sample_modules (sample_client [sample_channel 2 (Some 1)] [sample_bet 3])
          ''0xc1'' 1) = Resolved (JStr ''0xtx'')
   \<and> trace (snd (initiatorSettle sample_modules
                   (sample_client [sample_channel 2 (Some 1)] [sample_bet 3]) ''0xc1'' 1))
       = [Db_getChannel ''0xc1'', Db_getBet 1,
          Proof (Proof_getInitiatorSettleData (sample_channel 2 (Some 1)) (sample_bet 3)),
          Chain (Proxy_initiatorSettle ''0xc1'' 1 63 6 ''0xA'' ''0xB'' ''hra'' ''sigA'' ''rb''
                   ''sigB'' ''ra'')]"
proof -
  let ?s = "sample_client [sample_channel 2 (Some 1)] [sample_bet 3]"
  let ?d = "\<lparr>isd_channelIdentifier = ''0xc1'', isd_round = 1, isd_betMask = 63, isd_modulo = 6,
             isd_positive = ''0xA'', isd_negative = ''0xB'', isd_initiatorHashR = ''hra'',
             isd_initiatorSignature = ''sigA'', isd_acceptorR = ''rb'',
             isd_acceptorSignature = ''sigB'', isd_initiatorR = ''ra''\<rparr>"
  have stored: "fst (dbhelper_getChannel ''0xc1'' ?s) = Some (sample_channel 2 (Some 1))"
    by (simp add: dbhelper_getChannel_def sample_unfold)
  have closed: "ch_status (sample_channel 2 (Some 1)) = CHANNEL_CLOSED sample_modules
                \<or> ch_status (sample_channel 2 (Some 1)) = CHANNEL_UPDATEBALANCEPROOF sample_modules"
    by (simp add: sample_unfold)
  have bet: "fst (dbhelper_getBet 1 ?s) = Some (sample_bet 3)"
    by (simp add: dbhelper_getBet_def sample_unfold)
  have started: "BET_START sample_modules \<le> bet_status (sample_bet 3)"
    by (simp add: sample_unfold)
  have unfinished: "bet_status (sample_bet 3) \<noteq> BET_FINISH sample_modules"
    by (simp add: sample_unfold)
  have assembled:
    "getInitiatorSettleData sample_modules (sample_channel 2 (Some 1)) (sample_bet 3) = Inr ?d"
    by (simp add: sample_unfold)
  have mask: "\<bar>isd_betMask ?d\<bar> < 2 ^ 53"
    by simp
  have submitted: "blockchainProxy sample_modules (proof_as_call ?d) = Inr ''0xtx''"
    by (simp add: sample_modules_def proof_as_call_def)
  have call: "proof_as_call ?d
                = Proxy_initiatorSettle ''0xc1'' 1 63 6 ''0xA'' ''0xB'' ''hra'' ''sigA'' ''rb''
                    ''sigB'' ''ra''"
    by (simp add: proof_as_call_def)
  have empty: "trace ?s = []"
    by (simp add: sample_unfold)
  from initiatorSettle_submits_proof
         [OF stored closed bet started unfinished assembled mask submitted] call empty
  show ?thesis by simp
qed

text \<open>
  Claim C5 as it is written fails for a bet that has reached Finish: the guard of
  \<^verbatim>\<open>initiatorSettle\<close> (line 296) refuses it although its status (7) is at least Start
  (1) and its random is stored. The call resolves to \<^verbatim>\<open>false\<close> after the two reads,
  with no proof assembled and nothing submitted.
\<close>

theorem initiatorSettle_finished_bet_counterexample:
  "fst (dbhelper_getChannel ''0xc1'' (sample_client [sample_channel 2 (Some 1)] [sample_bet 7]))
     = Some (sample_channel 2 (Some 1))
   \<and> ch_status (sample_channel 2 (Some 1)) = CHANNEL_CLOSED sample_modules
   \<and> fst (dbhelper_getBet 1 (sample_client [sample_channel 2 (Some 1)] [sample_bet 7]))
       = Some (sample_bet 7)
   \<and> BET_START sample_modules \<le> bet_status (sample_bet 7)
   \<and> bet_ra (sample_bet 7) = ''ra''
   \<and> initiatorSettle sample_modules (sample_client [sample_channel 2 (Some 1)] [sample_bet 7]) ''0xc1'' 1
       = (Resolved (JBool False),
          (sample_client [sample_channel 2 (Some 1)] [sample_bet 7])
            \<lparr>trace := [Db_getChannel ''0xc1'', Db_getBet 1]\<rparr>)"
  by (simp add: settle_unfold dbhelper_getChannel_def sample_unfold)

text \<open>
  A mask of \<open>10 ^ 21\<close> is outside the safe range: \<^verbatim>\<open>parseInt\<close> (line 302) turns it
  into 1, and the call on the chain carries the mask 1.
\<close>

lemma initiatorSettle_call_mask_1e21:
  "initiatorSettle_call
     \<lparr>isd_channelIdentifier = ''0xc1'', isd_round = 1, isd_betMask = 1000000000000000000000,
      isd_modulo = 100, isd_positive = ''0xA'', isd_negative = ''0xB'',
      isd_initiatorHashR = ''hra'', isd_initiatorSignature = ''sigA'', isd_acceptorR = ''rb'',
      isd_acceptorSignature = ''sigB'', isd_initiatorR = ''ra''\<rparr>
   = Proxy_initiatorSettle ''0xc1'' 1 1 100 ''0xA'' ''0xB'' ''hra'' ''sigA'' ''rb'' ''sigB'' ''ra''"
  by (simp add: initiatorSettle_call_def parseInt_1e21)

subsection \<open>Settling a channel\<close>

text \<open>
  Claim C8, as the code has it. \<^verbatim>\<open>settleChannel\<close> first asks the blockchain proxy for
  the channel identifier. Once that lookup has returned, it assembles the settle proof
  and (when the assembly succeeds) submits the settle transaction exactly when the
  channel exists and its status is Closed or UpdateBalanceProof; in every other case it
  resolves to \<^verbatim>\<open>false\<close>, with no proof assembled and no chain call but that lookup.
\<close>

theorem settleChannel_settles_only_closed_or_updated:
  assumes "blockchainProxy M (Proxy_getChannelIdentifier partnerAddress) = Inr channelIdentifier"
  shows "(closed_or_updated M (fst (dbhelper_getChannel channelIdentifier s)) \<longrightarrow>
            (\<exists>channel. fst (dbhelper_getChannel channelIdentifier s) = Some channel
               \<and> (case getSettleData M channel (ch_localCloseBalanceHash channel)
                           (ch_remoteCloseBalanceHash channel) of
                     Inl e \<Rightarrow>
                       fst (settleChannel M s partnerAddress) = Rejected (JError e)
                       \<and> trace (snd (settleChannel M s partnerAddress))
                           = trace s @
                               [Chain (Proxy_getChannelIdentifier partnerAddress),
                                Db_getChannel channelIdentifier,
                                Proof (Proof_getSettleData channel (ch_localCloseBalanceHash channel)
                                         (ch_remoteCloseBalanceHash channel))]
                   | Inr settleData \<Rightarrow>
                       fst (settleChannel M s partnerAddress)
                         = settled (blockchainProxy M (settle_call settleData))
                       \<and> trace (snd (settleChannel M s partnerAddress))
                           = trace s @
                               [Chain (Proxy_getChannelIdentifier partnerAddress),
                                Db_getChannel channelIdentifier,
                                Proof (Proof_getSettleData channel (ch_localCloseBalanceHash channel)
                                         (ch_remoteCloseBalanceHash channel)),
                                Chain (settle_call settleData)])))
       \<and> (\<not> closed_or_updated M (fst (dbhelper_getChannel channelIdentifier s)) \<longrightarrow>
            fst (settleChannel M s partnerAddress) = Resolved (JBool False)
            \<and> trace (snd (settleChannel M s partnerAddress))
                = trace s @
                    [Chain (Proxy_getChannelIdentifier partnerAddress),
                     Db_getChannel channelIdentifier])"
  using assms
  by (auto simp: settle_unfold dbhelper_getChannel_def closed_or_updated_def
      split: option.splits sum.splits)

text \<open>
  A channel in UpdateBalanceProof (3) is settled, the hash of the transaction returned;
  a channel in another status (4) is refused after the lookup and the read.
\<close>

theorem settleChannel_settles_only_closed_or_updated_witness:
  "fst (settleChannel sample_modules (sample_client [sample_channel 3 (Some 1)] []) ''0xB'')
     = Resolved (JStr ''0xtx'')
   \<and> trace (snd (settleChannel sample_modules (sample_client [sample_channel 3 (Some 1)] []) ''0xB''))
       = [Chain (Proxy_getChannelIdentifier ''0xB''), Db_getChannel ''0xc1'',
          Proof (Proof_getSettleData (sample_channel 3 (Some 1)) ''0xl'' ''0xr''),
          Chain (Proxy_settle ''0xA'' 0 0 ''0xl'' ''0xB'' 0 0 ''0xr'')]
   \<and> fst (settleChannel sample_modules (sample_client [sample_channel 4 (Some 1)] []) ''0xB'')
       = Resolved (JBool False)
   \<and> trace (snd (settleChannel sample_modules (sample_client [sample_channel 4 (Some 1)] []) ''0xB''))
       = [Chain (Proxy_getChannelIdentifier ''0xB''), Db_getChannel ''0xc1'']"
proof -
  let ?s = "sample_client [sample_channel 3 (Some 1)] []"
  let ?t = "sample_client [sample_channel 4 (Some 1)] []"
  have lookup: "blockchainProxy sample_modules (Proxy_getChannelIdentifier ''0xB'') = Inr ''0xc1''"
    by (simp add: sample_modules_def)
  have updated: "closed_or_updated sample_modules (fst (dbhelper_getChannel ''0xc1'' ?s))"
    by (simp add: closed_or_updated_def dbhelper_getChannel_def sample_unfold)
  have other: "\<not> closed_or_updated sample_modules (fst (dbhelper_getChannel ''0xc1'' ?t))"
    by (simp add: closed_or_updated_def dbhelper_getChannel_def sample_unfold)
  have stored: "fst (dbhelper_getChannel ''0xc1'' ?s) = Some (sample_channel 3 (Some 1))"
    by (simp add: dbhelper_getChannel_def sample_unfold)
  have data: "getSettleData sample_modules (sample_channel 3 (Some 1))
                (ch_localCloseBalanceHash (sample_channel 3 (Some 1)))
                (ch_remoteCloseBalanceHash (sample_channel 3 (Some 1)))
              = Inr \<lparr>sd_participant1 = ''0xA'', sd_participant1_transferred_amount = 0,
                     sd_participant1_locked_amount = 0, sd_participant1_lock_id = ''0xl'',
                     sd_participant2 = ''0xB'', sd_participant2_transferred_amount = 0,
                     sd_participant2_locked_amount = 0, sd_participant2_lock_id = ''0xr''\<rparr>"
    by (simp add: sample_unfold)
  have empty: "trace ?s = []" "trace ?t = []"
    by (simp_all add: sample_unfold)
  from settleChannel_settles_only_closed_or_updated [OF lookup, of ?s] updated stored data empty
  have first: "fst (settleChannel sample_modules ?s ''0xB'') = Resolved (JStr ''0xtx'')
      \<and> trace (snd (settleChannel sample_modules ?s ''0xB''))
       = [Chain (Proxy_getChannelIdentifier ''0xB''), Db_getChannel ''0xc1'',
          Proof (Proof_getSettleData (sample_channel 3 (Some 1)) ''0xl'' ''0xr''),
          Chain (Proxy_settle ''0xA'' 0 0 ''0xl'' ''0xB'' 0 0 ''0xr'')]"
    by (simp add: settle_call_def settled_def sample_modules_def sample_channel_def)
  from settleChannel_settles_only_closed_or_updated [OF lookup, of ?t] other empty
  have second: "fst (settleChannel sample_modules ?t ''0xB'') = Resolved (JBool False)
      \<and> trace (snd (settleChannel sample_modules ?t ''0xB''))
       = [Chain (Proxy_getChannelIdentifier ''0xB''), Db_getChannel ''0xc1'']"
    by simp
  from first second show ?thesis by simp
qed

text \<open>
  Claim C8 as it is written fails in its last part: a refused \<^verbatim>\<open>settleChannel\<close> has
  made a call on the chain, the lookup \<^verbatim>\<open>blockchainProxy.getChannelIdentifier\<close> of
  line 257, which precedes the check. Here the channel is Opened (1).
\<close>

theorem settleChannel_looks_up_on_chain_counterexample:
  "\<not> closed_or_updated sample_modules
        (fst (dbhelper_getChannel ''0xc1'' (sample_client [sample_channel 1 (Some 1)] [])))
   \<and> blockchainProxy sample_modules (Proxy_getChannelIdentifier ''0xB'') = Inr ''0xc1''
   \<and> fst (settleChannel sample_modules (sample_client [sample_channel 1 (Some 1)] []) ''0xB'')
       = Resolved (JBool False)
   \<and> filter is_chain
        (trace (snd (settleChannel sample_modules (sample_client [sample_channel 1 (Some 1)] []) ''0xB'')))
       = [Chain (Proxy_getChannelIdentifier ''0xB'')]"
  by (simp add: settle_unfold dbhelper_getChannel_def closed_or_updated_def sample_unfold)

subsection \<open>Unlocking\<close>

text \<open>
  Claim C10. \<^verbatim>\<open>unlockChannel\<close> makes exactly one call on a collaborator whatever the
  client and the arguments are: the proxy's \<^verbatim>\<open>unlock\<close> with the local address, the
  partner and the lock identifier. There is no read of the database before it and no
  check; the tables are as before.
\<close>

theorem unlockChannel_calls_chain_unconditionally:
  "trace (snd (unlockChannel M s partnerAddress lockIdentifier))
     = trace s @ [Chain (Proxy_unlock (sc_from s) partnerAddress lockIdentifier)]
   \<and> db_channels (snd (unlockChannel M s partnerAddress lockIdentifier)) = db_channels s
   \<and> db_bets (snd (unlockChannel M s partnerAddress lockIdentifier)) = db_bets s"
  by (simp add: unlockChannel_def blockchainProxy_call_def split: sum.splits)

text \<open>
  Claim C7 does not hold of the code. The chain resolves the unlock call with the hash
  \<^verbatim>\<open>0xtx\<close>, and \<^verbatim>\<open>unlockChannel\<close> resolves to \<^verbatim>\<open>undefined\<close>: the method awaits the
  call and returns nothing, where its documentation (line 275) and the other methods
  return the hash.
\<close>

theorem unlockChannel_drops_hash:
  "blockchainProxy sample_modules (Proxy_unlock ''0xA'' ''0xB'' ''0xlock'') = Inr ''0xtx''
   \<and> unlockChannel sample_modules (sample_client [sample_channel 1 (Some 1)] []) ''0xB'' ''0xlock''
       = (Resolved JUndefined,
          (sample_client [sample_channel 1 (Some 1)] [])
            \<lparr>trace := [Chain (Proxy_unlock ''0xA'' ''0xB'' ''0xlock'')]\<rparr>)"
  by (simp add: unlockChannel_def blockchainProxy_call_def sample_modules_def sample_client_def
      constructor_def initMessageHandler_def)

subsection \<open>Reading a channel\<close>

text \<open>
  Claim C6 does not hold of the code. The channel with partner \<^verbatim>\<open>0xB\<close> is stored, and
  \<^verbatim>\<open>getChannel\<close> resolves to the empty object: its body is \<^verbatim>\<open>return {}\<close>, where its
  documentation (lines 315-317) promises the channel's information.
\<close>

theorem getChannel_is_a_stub:
  "find (\<lambda>c. ch_partner c = ''0xB'') (db_channels (sample_client [sample_channel 1 (Some 1)] []))
     = Some (sample_channel 1 (Some 1))
   \<and> fst (getChannel (sample_client [sample_channel 1 (Some 1)] []) ''0xB'') = Resolved JEmptyObject"
  by (simp add: getChannel_def sample_client_def constructor_def initMessageHandler_def
      sample_channel_def)

subsection \<open>Registering callbacks\<close>

text \<open>
  While the event list has its first prototype and the name is not \<^verbatim>\<open>__proto__\<close>,
  the assignment of \<^verbatim>\<open>on\<close> sets the own property of that name and nothing else.
\<close>

lemma on_plain:
  assumes "el_proto (sc_eventList s) = Object_prototype" and "event \<noteq> ''__proto__''"
  shows "on s event callback
           = Inr (s\<lparr>sc_eventList :=
                       (sc_eventList s)\<lparr>el_own := (el_own (sc_eventList s))(event \<mapsto> callback)\<rparr>\<rparr>)"
  using assms by (simp add: on_def assign_def split: option.splits)

lemma on_all_append:
  "on_all s (xs @ ys) = (case on_all s xs of Inl e \<Rightarrow> Inl e | Inr s1 \<Rightarrow> on_all s1 ys)"
  by (induction xs arbitrary: s) (auto split: sum.splits)

lemma on_all_plain:
  assumes "el_proto (sc_eventList s) = Object_prototype"
    and "''__proto__'' \<notin> fst ` set registrations"
  shows "\<exists>s1. on_all s registrations = Inr s1
            \<and> el_proto (sc_eventList s1) = Object_prototype
            \<and> (\<forall>event. event \<notin> fst ` set registrations \<longrightarrow>
                   el_own (sc_eventList s1) event = el_own (sc_eventList s) event)"
  using assms
proof (induction registrations arbitrary: s)
  case Nil
  then show ?case by simp
next
  case (Cons registration registrations)
  obtain event callback where reg: "registration = (event, callback)"
    by (cases registration)
  let ?s1 = "s\<lparr>sc_eventList :=
                  (sc_eventList s)\<lparr>el_own := (el_own (sc_eventList s))(event \<mapsto> callback)\<rparr>\<rparr>"
  from Cons.prems reg have "event \<noteq> ''__proto__''"
    by auto
  with Cons.prems(1) have step: "on s event callback = Inr ?s1"
    by (rule on_plain)
  have "el_proto (sc_eventList ?s1) = Object_prototype"
    using Cons.prems(1) by simp
  moreover have "''__proto__'' \<notin> fst ` set registrations"
    using Cons.prems(2) by simp
  ultimately obtain s2 where
    s2: "on_all ?s1 registrations = Inr s2" "el_proto (sc_eventList s2) = Object_prototype"
      "\<forall>e. e \<notin> fst ` set registrations \<longrightarrow>
             el_own (sc_eventList s2) e = el_own (sc_eventList ?s1) e"
    using Cons.IH [of ?s1] by blast
  show ?case
    using reg step s2 by auto
qed

text \<open>
  Claim C9, as the code has it. On a client whose event list still has its first
  prototype, and for registrations none of which is under the name \<^verbatim>\<open>__proto__\<close>, the
  event list holds one callback per event name, and after any run of registrations
  the callback stored under a name is the one of the latest registration for that
  name: whatever was registered earlier, and whatever is registered later under other
  names.
\<close>

theorem on_last_registration_wins:
  assumes "el_proto (sc_eventList s) = Object_prototype"
    and "''__proto__'' \<notin> fst ` set (earlier @ (event, callback) # later)"
    and "event \<notin> fst ` set later"
  shows "\<exists>s1. on_all s (earlier @ (event, callback) # later) = Inr s1
            \<and> el_own (sc_eventList s1) event = Some callback"
proof -
  from assms(2) have names:
    "''__proto__'' \<notin> fst ` set earlier" "event \<noteq> ''__proto__''"
    "''__proto__'' \<notin> fst ` set later"
    by auto
  from on_all_plain [OF assms(1) names(1)] obtain s1 where
    s1: "on_all s earlier = Inr s1" "el_proto (sc_eventList s1) = Object_prototype"
    by blast
  let ?s2 = "s1\<lparr>sc_eventList :=
                   (sc_eventList s1)\<lparr>el_own := (el_own (sc_eventList s1))(event \<mapsto> callback)\<rparr>\<rparr>"
  have s2: "on s1 event callback = Inr ?s2"
    using s1(2) names(2) by (rule on_plain)
  have "el_proto (sc_eventList ?s2) = Object_prototype"
    using s1(2) by simp
  from on_all_plain [OF this names(3)] obtain s3 where
    s3: "on_all ?s2 later = Inr s3"
      "\<forall>e. e \<notin> fst ` set later \<longrightarrow> el_own (sc_eventList s3) e = el_own (sc_eventList ?s2) e"
    by blast
  from s3(2) assms(3) have "el_own (sc_eventList s3) event = Some callback"
    by simp
  moreover have "on_all s (earlier @ (event, callback) # later) = Inr s3"
    using s1(1) s2 s3(1) by (simp add: on_all_append)
  ultimately show ?thesis by blast
qed

text \<open>Two registrations under \<^verbatim>\<open>BetRequest\<close>, with others around them: the second one stays.\<close>

theorem on_last_registration_wins_witness:
  "\<exists>s1. on_all (sample_client [] [])
            ([(''BetRequest'', plain_function 1), (''Preimage'', plain_function 2)]
             @ (''BetRequest'', plain_function 3) # [(''Preimage'', plain_function 4)]) = Inr s1
        \<and> el_own (sc_eventList s1) ''BetRequest'' = Some (plain_function 3)"
proof -
  have fresh: "el_proto (sc_eventList (sample_client [] [])) = Object_prototype"
    by (simp add: sample_unfold)
  have names: "''__proto__'' \<notin> fst ` set ([(''BetRequest'', plain_function 1), (''Preimage'', plain_function 2)]
             @ (''BetRequest'', plain_function 3) # [(''Preimage'', plain_function 4)])"
    by simp
  have last: "''BetRequest'' \<notin> fst ` set [(''Preimage'', plain_function 4)]"
    by simp
  show ?thesis by (rule on_last_registration_wins [OF fresh names last])
qed

text \<open>
  Claim C9 as it is written fails for the event name \<^verbatim>\<open>__proto__\<close>. A function
  registered under it becomes the prototype of the event list and no callback is
  stored; a primitive value registered under it is dropped. Once a function is the
  prototype, a registration under \<^verbatim>\<open>name\<close> throws a \<^verbatim>\<open>TypeError\<close>.
\<close>

theorem on_proto_counterexample:
  "on (sample_client [] []) ''__proto__'' (plain_function 1)
     = Inr ((sample_client [] [])
              \<lparr>sc_eventList :=
                 \<lparr>el_own = Map.empty,
                  el_proto = Function_prototype 1 [''name'', ''length'', ''arguments'', ''caller'']\<rparr>\<rparr>)
   \<and> on (sample_client [] []) ''__proto__'' (Primitive 0) = Inr (sample_client [] [])
   \<and> el_own (sc_eventList (sample_client [] [])) ''__proto__'' = None
   \<and> on_all (sample_client [] []) [(''__proto__'', plain_function 1), (''name'', plain_function 2)]
       = Inl ''TypeError''"
  by (simp add: on_def assign_def set_prototype_def plain_function_def sample_unfold)


end
